theory Spec2Isabelle
  imports Complex_Main
begin

section \<open>Values and declared types\<close>

text \<open>
  The repository consists of TypeScript declarations only.  A declaration denotes a set of
  values, so the embedding has two layers: the values a webhook payload is made of
  (what \<open>JSON.parse\<close> yields), and the fragment of the TypeScript type language the
  declarations are written in, with assignability (under \<open>strictNullChecks\<close>, which the
  explicit \<open>| null\<close> annotations of the source presuppose) as an executable predicate.
\<close>

datatype json =
    JNull
  | JBool bool
  | JNum rat
  | JStr string
  | JArr "json list"
  | JObj "(string \<times> json) list"

text \<open>\<open>name: T\<close> is a required property, \<open>name?: T\<close> an optional one.\<close>

datatype presence = Required | Optional

datatype ty =
    TString
  | TNumber
  | TBoolean
  | TNull
  | TAny
  | TLit string
  | TArray ty
  | TUnion "ty list"
  | TRecord ty
  | TObject "property list"
and property = Prop (prop_name: string) (prop_presence: presence) (prop_type: ty)

type_synonym interface = "property list"

text \<open>
  Assignability of a value to a declared type.  An object type constrains only the
  properties it declares: a required property must be present with a conforming value
  (\<open>null\<close> conforms only where the type says so), an optional one may be absent, and
  properties the type does not mention are ignored.  \<open>Record<string, T>\<close> constrains
  every value of the object.  The keys of an object are distinct, so \<open>map_of\<close> reads
  a property.
\<close>

primrec conforms :: "ty \<Rightarrow> json \<Rightarrow> bool"
  and conforms_prop :: "property \<Rightarrow> (string \<times> json) list \<Rightarrow> bool"
  and conforms_any :: "ty list \<Rightarrow> json \<Rightarrow> bool"
  and conforms_props :: "property list \<Rightarrow> (string \<times> json) list \<Rightarrow> bool"
where
  "conforms TString v = (case v of JStr _ \<Rightarrow> True | _ \<Rightarrow> False)"
| "conforms TNumber v = (case v of JNum _ \<Rightarrow> True | _ \<Rightarrow> False)"
| "conforms TBoolean v = (case v of JBool _ \<Rightarrow> True | _ \<Rightarrow> False)"
| "conforms TNull v = (case v of JNull \<Rightarrow> True | _ \<Rightarrow> False)"
| "conforms TAny v = True"
| "conforms (TLit s) v = (case v of JStr x \<Rightarrow> x = s | _ \<Rightarrow> False)"
| "conforms (TArray t) v = (case v of JArr xs \<Rightarrow> list_all (conforms t) xs | _ \<Rightarrow> False)"
| "conforms (TUnion ts) v = conforms_any ts v"
| "conforms (TRecord t) v =
     (case v of JObj kvs \<Rightarrow> list_all (conforms t) (map snd kvs) | _ \<Rightarrow> False)"
| "conforms (TObject ps) v = (case v of JObj kvs \<Rightarrow> conforms_props ps kvs | _ \<Rightarrow> False)"
| "conforms_prop (Prop n pr t) kvs =
     (case map_of kvs n of None \<Rightarrow> pr = Optional | Some x \<Rightarrow> conforms t x)"
| "conforms_any [] v = False"
| "conforms_any (t # ts) v = (conforms t v \<or> conforms_any ts v)"
| "conforms_props [] kvs = True"
| "conforms_props (p # ps) kvs = (conforms_prop p kvs \<and> conforms_props ps kvs)"

text \<open>The declared properties a given object violates, by name, in declaration order.\<close>

definition violations :: "interface \<Rightarrow> (string \<times> json) list \<Rightarrow> string list" where
  "violations ps kvs = map prop_name (filter (\<lambda>p. \<not> conforms_prop p kvs) ps)"

text \<open>
  \<open>interface A extends B { own }\<close>: the members of \<open>A\<close> are its own, then those of
  \<open>B\<close> it does not redeclare.
\<close>

definition extends :: "interface \<Rightarrow> interface \<Rightarrow> interface" where
  "extends base own = own @ filter (\<lambda>p. prop_name p \<notin> set (map prop_name own)) base"

definition field_names :: "interface \<Rightarrow> string list" where
  "field_names ps = map prop_name ps"

definition field :: "interface \<Rightarrow> string \<Rightarrow> (presence \<times> ty) option" where
  "field ps n = map_option (\<lambda>p. (prop_presence p, prop_type p)) (find (\<lambda>p. prop_name p = n) ps)"

text \<open>The members of a union type, and the literal a member fixes for \<open>type\<close>.\<close>

fun variants :: "ty \<Rightarrow> ty list" where
  "variants (TUnion ts) = ts"
| "variants t = [t]"

fun members :: "ty \<Rightarrow> interface" where
  "members (TObject ps) = ps"
| "members t = []"

definition discriminant :: "ty \<Rightarrow> string option" where
  "discriminant t =
     (case field (members t) ''type'' of
        Some (Required, TLit s) \<Rightarrow> Some s
      | _ \<Rightarrow> None)"

section \<open>The declarations of the first file (event nested under \<open>event\<close>)\<close>

subsection \<open>Helpers\<close>

definition Attributes :: ty where
  "Attributes =
     TRecord (TObject [Prop ''updated_at_ms'' Required TNumber, Prop ''value'' Required TString])"

definition Store :: ty where
  "Store = TUnion [TLit ''AMAZON'', TLit ''APP_STORE'', TLit ''MAC_APP_STORE'',
     TLit ''PLAY_STORE'', TLit ''PROMOTIONAL'', TLit ''STRIPE'']"

definition Environment :: ty where
  "Environment = TUnion [TLit ''SANDBOX'', TLit ''PRODUCTION'']"

definition CancelReason :: ty where
  "CancelReason = TUnion [TLit ''UNSUBSCRIBE'', TLit ''BILLING_ERROR'',
     TLit ''DEVELOPER_INITIATED'', TLit ''PRICE_INCREASE'', TLit ''CUSTOMER_SUPPORT'',
     TLit ''UNKNOWN'']"

definition ExpirationReason :: ty where
  "ExpirationReason = TUnion [TLit ''UNSUBSCRIBE'', TLit ''BILLING_ERROR'',
     TLit ''DEVELOPER_INITIATED'', TLit ''PRICE_INCREASE'', TLit ''CUSTOMER_SUPPORT'',
     TLit ''SUBSCRIPTION_PAUSED'', TLit ''UNKNOWN'']"

subsection \<open>The base interface and the twelve event interfaces\<close>

definition WebhookBase :: interface where
  "WebhookBase =
    [Prop ''id'' Required TString,
     Prop ''app_id'' Required TString,
     Prop ''event_timestamp_ms'' Required TNumber,
     Prop ''product_id'' Required TString,
     Prop ''period_type'' Required TString,
     Prop ''purchased_at_ms'' Required TNumber,
     Prop ''expiration_at_ms'' Required TNumber,
     Prop ''environment'' Required Environment,
     Prop ''entitlement_id'' Required (TUnion [TString, TNull]),
     Prop ''entitlement_ids'' Required (TUnion [TArray TString, TNull]),
     Prop ''presented_offering_id'' Required (TUnion [TString, TNull]),
     Prop ''transaction_id'' Required TString,
     Prop ''original_transaction_id'' Required TString,
     Prop ''is_family_share'' Required TBoolean,
     Prop ''country_code'' Required TString,
     Prop ''app_user_id'' Required TString,
     Prop ''aliases'' Required (TArray TString),
     Prop ''original_app_user_id'' Required TString,
     Prop ''currency'' Required TString,
     Prop ''price'' Required (TUnion [TNumber, TNull]),
     Prop ''price_in_purchased_currency'' Required (TUnion [TNumber, TNull]),
     Prop ''renewal_number'' Required (TUnion [TNull, TNumber]),
     Prop ''subscriber_attributes'' Required Attributes,
     Prop ''store'' Required Store,
     Prop ''takehome_percentage'' Optional TNumber,
     Prop ''offer_code'' Optional (TUnion [TNull, TString]),
     Prop ''tax_percentage'' Optional TNumber,
     Prop ''commission_percentage'' Optional TNumber,
     Prop ''metadata'' Required (TUnion [TNull, TAny])]"

definition WebhookInitialPurchase :: interface where
  "WebhookInitialPurchase =
     extends WebhookBase [Prop ''type'' Required (TLit ''INITIAL_PURCHASE'')]"

definition WebhookRenewal :: interface where
  "WebhookRenewal =
     extends WebhookBase
       [Prop ''type'' Required (TLit ''RENEWAL''),
        Prop ''is_trial_conversion'' Required TBoolean]"

definition WebhookCancellation :: interface where
  "WebhookCancellation =
     extends WebhookBase
       [Prop ''type'' Required (TLit ''CANCELLATION''),
        Prop ''cancel_reason'' Required CancelReason]"

definition WebhookUnCancellation :: interface where
  "WebhookUnCancellation =
     extends WebhookBase [Prop ''type'' Required (TLit ''UNCANCELLATION'')]"

definition WebhookNonRenewingPurchase :: interface where
  "WebhookNonRenewingPurchase =
     extends WebhookBase [Prop ''type'' Required (TLit ''NON_RENEWING_PURCHASE'')]"

definition WebhookExpiration :: interface where
  "WebhookExpiration =
     extends WebhookBase
       [Prop ''type'' Required (TLit ''EXPIRATION''),
        Prop ''expiration_reason'' Required ExpirationReason]"

definition WebhookSubscriptionPaused :: interface where
  "WebhookSubscriptionPaused =
     extends WebhookBase
       [Prop ''type'' Required (TLit ''SUBSCRIPTION_PAUSED''),
        Prop ''expiration_reason'' Required ExpirationReason,
        Prop ''auto_resume_at_ms'' Optional TNumber]"

definition WebhookBillingIssue :: interface where
  "WebhookBillingIssue =
     extends WebhookBase
       [Prop ''type'' Required (TLit ''BILLING_ISSUE''),
        Prop ''grace_period_expiration_at_ms'' Required (TUnion [TNumber, TNull])]"

definition WebhookProductChange :: interface where
  "WebhookProductChange =
     extends WebhookBase
       [Prop ''type'' Required (TLit ''PRODUCT_CHANGE''),
        Prop ''new_product_id'' Optional TString]"

definition WebhookSubscriptionExtended :: interface where
  "WebhookSubscriptionExtended =
     extends WebhookBase [Prop ''type'' Required (TLit ''SUBSCRIPTION_EXTENDED'')]"

definition WebhookTemporaryEntitlementGrant :: interface where
  "WebhookTemporaryEntitlementGrant =
    [Prop ''type'' Required (TLit ''TEMPORARY_ENTITLEMENT_GRANT''),
     Prop ''id'' Required TString,
     Prop ''app_user_id'' Required TString,
     Prop ''purchased_at_ms'' Required TNumber,
     Prop ''expiration_at_ms'' Required TNumber,
     Prop ''event_timestamp_ms'' Required TNumber,
     Prop ''product_id'' Required TString,
     Prop ''entitlement_ids'' Required (TUnion [TArray TString, TNull]),
     Prop ''store'' Required Store,
     Prop ''transaction_id'' Required TString]"

definition WebhookTransfer :: interface where
  "WebhookTransfer =
    [Prop ''type'' Required (TLit ''TRANSFER''),
     Prop ''id'' Required TString,
     Prop ''app_id'' Required TString,
     Prop ''environment'' Required Environment,
     Prop ''store'' Required Store,
     Prop ''event_timestamp_ms'' Required TNumber,
     Prop ''transferred_from'' Required (TArray TString),
     Prop ''transferred_to'' Required (TArray TString)]"

definition Webhook_event :: ty where
  "Webhook_event =
     TUnion
      [TObject WebhookInitialPurchase,
       TObject WebhookRenewal,
       TObject WebhookCancellation,
       TObject WebhookUnCancellation,
       TObject WebhookNonRenewingPurchase,
       TObject WebhookExpiration,
       TObject WebhookSubscriptionPaused,
       TObject WebhookBillingIssue,
       TObject WebhookProductChange,
       TObject WebhookSubscriptionExtended,
       TObject WebhookTemporaryEntitlementGrant,
       TObject WebhookTransfer]"

definition Webhook :: ty where
  "Webhook =
     TObject [Prop ''api_version'' Required TString, Prop ''event'' Required Webhook_event]"

section \<open>The declarations of the second file (union at top level)\<close>

text \<open>
  The second declaration file declares the same names again; its constants carry the
  suffix \<open>_flat\<close>.  \<open>Attributes\<close>, \<open>Store\<close>, \<open>Environment\<close> and \<open>CancelReason\<close>
  are declared there with the same right-hand sides as in the first file, and are shared.
\<close>

definition ExpirationReason_flat :: ty where
  "ExpirationReason_flat = TUnion [TLit ''UNSUBSCRIBE'', TLit ''BILLING_ERROR'',
     TLit ''DEVELOPER_INITIATED'', TLit ''PRICE_INCREASE'', TLit ''CUSTOMER_SUPPORT'',
     TLit ''UNKNOWN'']"

definition WebhookBase_flat :: interface where
  "WebhookBase_flat =
    [Prop ''id'' Required TString,
     Prop ''app_id'' Required TString,
     Prop ''event_timestamp_ms'' Required TNumber,
     Prop ''product_id'' Required TString,
     Prop ''period_type'' Required TString,
     Prop ''purchased_at_ms'' Required TNumber,
     Prop ''expiration_at_ms'' Required TNumber,
     Prop ''environment'' Required Environment,
     Prop ''entitlement_id'' Required (TUnion [TString, TNull]),
     Prop ''entitlement_ids'' Required (TArray TString),
     Prop ''presented_offering_id'' Required (TUnion [TString, TNull]),
     Prop ''transaction_id'' Required TString,
     Prop ''original_transaction_id'' Required TString,
     Prop ''is_family_share'' Required TBoolean,
     Prop ''country_code'' Required TString,
     Prop ''app_user_id'' Required TString,
     Prop ''aliases'' Required (TArray TString),
     Prop ''original_app_user_id'' Required TString,
     Prop ''currency'' Required TString,
     Prop ''price'' Required TNumber,
     Prop ''price_in_purchased_currency'' Required TNumber,
     Prop ''subscriber_attributes'' Required Attributes,
     Prop ''store'' Required Store,
     Prop ''takehome_percentage'' Optional TNumber,
     Prop ''offer_code'' Optional (TUnion [TNull, TString]),
     Prop ''tax_percentage'' Optional TNumber,
     Prop ''commission_percentage'' Optional TNumber]"

definition WebhookInitialPurchase_flat :: interface where
  "WebhookInitialPurchase_flat =
     extends WebhookBase_flat [Prop ''type'' Required (TLit ''INITIAL_PURCHASE'')]"

definition WebhookRenewal_flat :: interface where
  "WebhookRenewal_flat =
     extends WebhookBase_flat [Prop ''type'' Required (TLit ''RENEWAL'')]"

definition WebhookCancellation_flat :: interface where
  "WebhookCancellation_flat =
     extends WebhookBase_flat
       [Prop ''type'' Required (TLit ''CANCELLATION''),
        Prop ''cancel_reason'' Required CancelReason]"

definition WebhookUnCancellation_flat :: interface where
  "WebhookUnCancellation_flat =
     extends WebhookBase_flat [Prop ''type'' Required (TLit ''UNCANCELLATION'')]"

definition WebhookNonRenewingPurchase_flat :: interface where
  "WebhookNonRenewingPurchase_flat =
     extends WebhookBase_flat [Prop ''type'' Required (TLit ''NON_RENEWING_PURCHASE'')]"

definition WebhookExpiration_flat :: interface where
  "WebhookExpiration_flat =
     extends WebhookBase_flat
       [Prop ''type'' Required (TLit ''EXPIRATION''),
        Prop ''expiration_reason'' Required ExpirationReason_flat]"

definition WebhookSubscriptionPaused_flat :: interface where
  "WebhookSubscriptionPaused_flat =
     extends WebhookBase_flat
       [Prop ''type'' Required (TLit ''SUBSCRIPTION_PAUSED''),
        Prop ''expiration_reason'' Required ExpirationReason_flat]"

definition WebhookBillingIssue_flat :: interface where
  "WebhookBillingIssue_flat =
     extends WebhookBase_flat [Prop ''type'' Required (TLit ''BILLING_ISSUE'')]"

definition WebhookProductChange_flat :: interface where
  "WebhookProductChange_flat =
     extends WebhookBase_flat
       [Prop ''type'' Required (TLit ''PRODUCT_CHANGE''),
        Prop ''new_product_id'' Required TString]"

definition WebhookSubscriptionExtended_flat :: interface where
  "WebhookSubscriptionExtended_flat =
     extends WebhookBase_flat [Prop ''type'' Required (TLit ''SUBSCRIPTION_EXTENDED'')]"

definition WebhookTemporaryEntitlementGrant_flat :: interface where
  "WebhookTemporaryEntitlementGrant_flat =
    [Prop ''type'' Required (TLit ''TEMPORARY_ENTITLEMENT_GRANT''),
     Prop ''app_user_id'' Required TString,
     Prop ''purchased_at_ms'' Required TNumber,
     Prop ''expiration_at_ms'' Required TNumber,
     Prop ''event_timestamp_ms'' Required TNumber,
     Prop ''product_id'' Required TString,
     Prop ''entitlement_ids'' Required (TArray TString),
     Prop ''store'' Required Store,
     Prop ''transaction_id'' Required TString]"

definition Webhook_flat :: ty where
  "Webhook_flat =
     TUnion
      [TObject WebhookInitialPurchase_flat,
       TObject WebhookRenewal_flat,
       TObject WebhookCancellation_flat,
       TObject WebhookUnCancellation_flat,
       TObject WebhookNonRenewingPurchase_flat,
       TObject WebhookExpiration_flat,
       TObject WebhookSubscriptionPaused_flat,
       TObject WebhookBillingIssue_flat,
       TObject WebhookProductChange_flat,
       TObject WebhookSubscriptionExtended_flat,
       TObject WebhookTemporaryEntitlementGrant_flat]"

section \<open>Reading and changing payload objects\<close>

text \<open>\<open>obj[k] = v\<close> and \<open>delete obj[k]\<close> on the key/value list of an object.\<close>

definition set_field :: "string \<Rightarrow> json \<Rightarrow> (string \<times> json) list \<Rightarrow> (string \<times> json) list" where
  "set_field k v kvs = (k, v) # filter (\<lambda>kv. fst kv \<noteq> k) kvs"

definition del_field :: "string \<Rightarrow> (string \<times> json) list \<Rightarrow> (string \<times> json) list" where
  "del_field k kvs = filter (\<lambda>kv. fst kv \<noteq> k) kvs"

text \<open>The value of the discriminant \<open>type\<close> of a payload, when it is a string.\<close>

definition type_of_event :: "json \<Rightarrow> string option" where
  "type_of_event v =
     (case v of
        JObj kvs \<Rightarrow> (case map_of kvs ''type'' of Some (JStr t) \<Rightarrow> Some t | _ \<Rightarrow> None)
      | _ \<Rightarrow> None)"

text \<open>
  A variant carries the envelope when it declares every property of the base interface
  as the base interface declares it (which is what \<open>extends\<close> gives).
\<close>

definition carries_envelope :: "interface \<Rightarrow> ty \<Rightarrow> bool" where
  "carries_envelope base s = list_all (\<lambda>p. p \<in> set (members s)) base"

section \<open>Narrowing by the discriminant\<close>

datatype narrow_error = UnknownEventType | MalformedShape "string list"

text \<open>
  Modelled from the spec: the operation \<open>Narrow\<close> of the specification's component design;
  the repository declares types only and has no function that narrows at run time (its
  README narrows with a \<open>switch\<close> on \<open>req.type\<close> in the caller).  Following the
  specification: the variant is selected by the \<open>type\<close> tag alone; a tag that is not the
  literal of any member of the union (in particular a \<open>type\<close> that is not a string, or
  a payload without one) is \<open>UnknownEventType\<close>; a known tag whose shape
  the object violates is \<open>MalformedShape\<close> with the names of the violated properties;
  otherwise the result is the same object, known to be of the variant with that tag.
  The shapes themselves are the declarations of the source.
\<close>

definition Narrow :: "ty \<Rightarrow> json \<Rightarrow> narrow_error + (string \<times> (string \<times> json) list)" where
  "Narrow u v =
     (case v of
        JObj kvs \<Rightarrow>
          (case map_of kvs ''type'' of
             Some (JStr t) \<Rightarrow>
               (case find (\<lambda>s. discriminant s = Some t) (variants u) of
                  None \<Rightarrow> Inl UnknownEventType
                | Some s \<Rightarrow>
                    (case violations (members s) kvs of
                       [] \<Rightarrow> Inr (t, kvs)
                     | n # ns \<Rightarrow> Inl (MalformedShape (n # ns))))
           | _ \<Rightarrow> Inl UnknownEventType)
      | _ \<Rightarrow> Inl UnknownEventType)"

section \<open>Sample payloads\<close>

text \<open>The end-to-end example of the specification, key by key.\<close>

definition example_renewal :: "(string \<times> json) list" where
  "example_renewal =
    [(''type'', JStr ''RENEWAL''),
     (''id'', JStr ''evt_1''),
     (''app_id'', JStr ''app_1''),
     (''event_timestamp_ms'', JNum 1000),
     (''product_id'', JStr ''p1''),
     (''period_type'', JStr ''NORMAL''),
     (''purchased_at_ms'', JNum 900),
     (''expiration_at_ms'', JNum 2000),
     (''environment'', JStr ''PRODUCTION''),
     (''entitlement_ids'', JArr [JStr ''pro'']),
     (''transaction_id'', JStr ''t1''),
     (''original_transaction_id'', JStr ''t1''),
     (''is_family_share'', JBool False),
     (''country_code'', JStr ''US''),
     (''app_user_id'', JStr ''u1''),
     (''aliases'', JArr [JStr ''u1'']),
     (''original_app_user_id'', JStr ''u1''),
     (''currency'', JStr ''USD''),
     (''price'', JNum (999 / 100)),
     (''price_in_purchased_currency'', JNum (999 / 100)),
     (''subscriber_attributes'', JObj []),
     (''store'', JStr ''APP_STORE''),
     (''is_trial_conversion'', JBool True)]"

text \<open>The four keys the example leaves out, with the null marker as their value.\<close>

definition absent_keys_as_null :: "(string \<times> json) list" where
  "absent_keys_as_null =
    [(''entitlement_id'', JNull),
     (''presented_offering_id'', JNull),
     (''renewal_number'', JNull),
     (''metadata'', JNull)]"

text \<open>An envelope with every required key of the base interface, and no \<open>type\<close>.\<close>

definition envelope_sample :: "(string \<times> json) list" where
  "envelope_sample =
    [(''id'', JStr ''evt_1''),
     (''app_id'', JStr ''app_1''),
     (''event_timestamp_ms'', JNum 1000),
     (''product_id'', JStr ''p1''),
     (''period_type'', JStr ''NORMAL''),
     (''purchased_at_ms'', JNum 900),
     (''expiration_at_ms'', JNum 2000),
     (''environment'', JStr ''PRODUCTION''),
     (''entitlement_id'', JNull),
     (''entitlement_ids'', JArr [JStr ''pro'']),
     (''presented_offering_id'', JNull),
     (''transaction_id'', JStr ''t1''),
     (''original_transaction_id'', JStr ''t1''),
     (''is_family_share'', JBool False),
     (''country_code'', JStr ''US''),
     (''app_user_id'', JStr ''u1''),
     (''aliases'', JArr [JStr ''u1'']),
     (''original_app_user_id'', JStr ''u1''),
     (''currency'', JStr ''USD''),
     (''price'', JNum (999 / 100)),
     (''price_in_purchased_currency'', JNum (999 / 100)),
     (''renewal_number'', JNum 1),
     (''subscriber_attributes'', JObj []),
     (''store'', JStr ''APP_STORE''),
     (''metadata'', JNull)]"

definition purchase_sample :: "(string \<times> json) list" where
  "purchase_sample = (''type'', JStr ''NON_RENEWING_PURCHASE'') # envelope_sample"

definition expiration_sample :: "(string \<times> json) list" where
  "expiration_sample =
     (''type'', JStr ''EXPIRATION'') # (''expiration_reason'', JStr ''SUBSCRIPTION_PAUSED'')
       # envelope_sample"

definition product_change_sample :: "(string \<times> json) list" where
  "product_change_sample =
     (''type'', JStr ''PRODUCT_CHANGE'') # (''new_product_id'', JStr ''p2'') # envelope_sample"

definition grant_sample :: "(string \<times> json) list" where
  "grant_sample =
    [(''type'', JStr ''TEMPORARY_ENTITLEMENT_GRANT''),
     (''id'', JStr ''evt_2''),
     (''app_user_id'', JStr ''u1''),
     (''purchased_at_ms'', JNum 900),
     (''expiration_at_ms'', JNum 2000),
     (''event_timestamp_ms'', JNum 1000),
     (''product_id'', JStr ''p1''),
     (''entitlement_ids'', JArr [JStr ''pro'']),
     (''store'', JStr ''APP_STORE''),
     (''transaction_id'', JStr ''t1'')]"

definition transfer_sample :: "(string \<times> json) list" where
  "transfer_sample =
    [(''type'', JStr ''TRANSFER''),
     (''id'', JStr ''evt_3''),
     (''app_id'', JStr ''app_1''),
     (''environment'', JStr ''PRODUCTION''),
     (''store'', JStr ''APP_STORE''),
     (''event_timestamp_ms'', JNum 1000),
     (''transferred_from'', JArr [JStr ''u1'']),
     (''transferred_to'', JArr [JStr ''u2''])]"

definition future_sample :: "(string \<times> json) list" where
  "future_sample = [(''type'', JStr ''SOME_FUTURE_TYPE'')]"

section \<open>Unfolding the declarations\<close>

lemmas helper_defs = Attributes_def Store_def Environment_def CancelReason_def
  ExpirationReason_def ExpirationReason_flat_def

lemmas nested_defs = WebhookBase_def WebhookInitialPurchase_def WebhookRenewal_def
  WebhookCancellation_def WebhookUnCancellation_def WebhookNonRenewingPurchase_def
  WebhookExpiration_def WebhookSubscriptionPaused_def WebhookBillingIssue_def
  WebhookProductChange_def WebhookSubscriptionExtended_def
  WebhookTemporaryEntitlementGrant_def WebhookTransfer_def

lemmas flat_defs = WebhookBase_flat_def WebhookInitialPurchase_flat_def WebhookRenewal_flat_def
  WebhookCancellation_flat_def WebhookUnCancellation_flat_def
  WebhookNonRenewingPurchase_flat_def WebhookExpiration_flat_def
  WebhookSubscriptionPaused_flat_def WebhookBillingIssue_flat_def
  WebhookProductChange_flat_def WebhookSubscriptionExtended_flat_def
  WebhookTemporaryEntitlementGrant_flat_def

section \<open>The discriminant of each variant\<close>

lemma discriminant_nested:
  "discriminant (TObject WebhookInitialPurchase) = Some ''INITIAL_PURCHASE''"
  "discriminant (TObject WebhookRenewal) = Some ''RENEWAL''"
  "discriminant (TObject WebhookCancellation) = Some ''CANCELLATION''"
  "discriminant (TObject WebhookUnCancellation) = Some ''UNCANCELLATION''"
  "discriminant (TObject WebhookNonRenewingPurchase) = Some ''NON_RENEWING_PURCHASE''"
  "discriminant (TObject WebhookExpiration) = Some ''EXPIRATION''"
  "discriminant (TObject WebhookSubscriptionPaused) = Some ''SUBSCRIPTION_PAUSED''"
  "discriminant (TObject WebhookBillingIssue) = Some ''BILLING_ISSUE''"
  "discriminant (TObject WebhookProductChange) = Some ''PRODUCT_CHANGE''"
  "discriminant (TObject WebhookSubscriptionExtended) = Some ''SUBSCRIPTION_EXTENDED''"
  "discriminant (TObject WebhookTemporaryEntitlementGrant) = Some ''TEMPORARY_ENTITLEMENT_GRANT''"
  "discriminant (TObject WebhookTransfer) = Some ''TRANSFER''"
  by (simp_all add: discriminant_def field_def extends_def nested_defs)

lemma discriminant_flat:
  "discriminant (TObject WebhookInitialPurchase_flat) = Some ''INITIAL_PURCHASE''"
  "discriminant (TObject WebhookRenewal_flat) = Some ''RENEWAL''"
  "discriminant (TObject WebhookCancellation_flat) = Some ''CANCELLATION''"
  "discriminant (TObject WebhookUnCancellation_flat) = Some ''UNCANCELLATION''"
  "discriminant (TObject WebhookNonRenewingPurchase_flat) = Some ''NON_RENEWING_PURCHASE''"
  "discriminant (TObject WebhookExpiration_flat) = Some ''EXPIRATION''"
  "discriminant (TObject WebhookSubscriptionPaused_flat) = Some ''SUBSCRIPTION_PAUSED''"
  "discriminant (TObject WebhookBillingIssue_flat) = Some ''BILLING_ISSUE''"
  "discriminant (TObject WebhookProductChange_flat) = Some ''PRODUCT_CHANGE''"
  "discriminant (TObject WebhookSubscriptionExtended_flat) = Some ''SUBSCRIPTION_EXTENDED''"
  "discriminant (TObject WebhookTemporaryEntitlementGrant_flat) =
     Some ''TEMPORARY_ENTITLEMENT_GRANT''"
  by (simp_all add: discriminant_def field_def extends_def flat_defs)

lemma Webhook_event_discriminants:
  "map discriminant (variants Webhook_event) =
     map Some [''INITIAL_PURCHASE'', ''RENEWAL'', ''CANCELLATION'', ''UNCANCELLATION'',
       ''NON_RENEWING_PURCHASE'', ''EXPIRATION'', ''SUBSCRIPTION_PAUSED'', ''BILLING_ISSUE'',
       ''PRODUCT_CHANGE'', ''SUBSCRIPTION_EXTENDED'', ''TEMPORARY_ENTITLEMENT_GRANT'',
       ''TRANSFER'']"
  by (simp add: Webhook_event_def discriminant_nested)

lemma Webhook_flat_discriminants:
  "map discriminant (variants Webhook_flat) =
     map Some [''INITIAL_PURCHASE'', ''RENEWAL'', ''CANCELLATION'', ''UNCANCELLATION'',
       ''NON_RENEWING_PURCHASE'', ''EXPIRATION'', ''SUBSCRIPTION_PAUSED'', ''BILLING_ISSUE'',
       ''PRODUCT_CHANGE'', ''SUBSCRIPTION_EXTENDED'', ''TEMPORARY_ENTITLEMENT_GRANT'']"
  by (simp add: Webhook_flat_def discriminant_flat)

text \<open>
  C1, as stated, fails in the second file: its union has eleven members and none of them
  is tagged \<open>TRANSFER\<close> (the file declares no transfer interface at all).
\<close>

theorem flat_union_has_no_transfer:
  "length (variants Webhook_flat) = 11 \<and>
   Some ''TRANSFER'' \<notin> set (map discriminant (variants Webhook_flat))"
  by (simp add: Webhook_flat_discriminants) (simp add: Webhook_flat_def)

text \<open>
  C1 (amended): the event union is a closed union whose members each fix a literal
  \<open>type\<close>.  In the first file it is the type of the required property \<open>event\<close> and has
  exactly the twelve documented tags, one member each; in the second file it is the
  top-level type and has exactly eleven, the same tags without \<open>TRANSFER\<close>.
\<close>

theorem event_union_tags:
  "field (members Webhook) ''event'' = Some (Required, Webhook_event) \<and>
   map discriminant (variants Webhook_event) =
     map Some [''INITIAL_PURCHASE'', ''RENEWAL'', ''CANCELLATION'', ''UNCANCELLATION'',
       ''NON_RENEWING_PURCHASE'', ''EXPIRATION'', ''SUBSCRIPTION_PAUSED'', ''BILLING_ISSUE'',
       ''PRODUCT_CHANGE'', ''SUBSCRIPTION_EXTENDED'', ''TEMPORARY_ENTITLEMENT_GRANT'',
       ''TRANSFER''] \<and>
   map discriminant (variants Webhook_flat) =
     map Some [''INITIAL_PURCHASE'', ''RENEWAL'', ''CANCELLATION'', ''UNCANCELLATION'',
       ''NON_RENEWING_PURCHASE'', ''EXPIRATION'', ''SUBSCRIPTION_PAUSED'', ''BILLING_ISSUE'',
       ''PRODUCT_CHANGE'', ''SUBSCRIPTION_EXTENDED'', ''TEMPORARY_ENTITLEMENT_GRANT'']"
proof -
  have "field (members Webhook) ''event'' = Some (Required, Webhook_event)"
    by (simp add: Webhook_def field_def)
  with Webhook_event_discriminants Webhook_flat_discriminants show ?thesis
    by (simp only: simp_thms)
qed

section \<open>The reason enumerations\<close>

text \<open>
  In the first file the values of \<open>ExpirationReason\<close> are those of \<open>CancelReason\<close> and
  \<open>SUBSCRIPTION_PAUSED\<close>.
\<close>

lemma ExpirationReason_values:
  "conforms ExpirationReason v \<longleftrightarrow>
     conforms CancelReason v \<or> v = JStr ''SUBSCRIPTION_PAUSED''"
  by (cases v) (auto simp: ExpirationReason_def CancelReason_def)

text \<open>
  C2: \<open>ExpirationReason\<close> is \<open>CancelReason\<close> plus \<open>SUBSCRIPTION_PAUSED\<close>.  The second
  file declares \<open>ExpirationReason\<close> with the six values of \<open>CancelReason\<close> only, although
  its own comment on the paused event says that the expiration event will carry the
  reason \<open>SUBSCRIPTION_PAUSED\<close>: such an expiration event is accepted by the first
  file's declaration and rejected by the second's, for that property alone.
\<close>

theorem ExpirationReason_flat_rejects_paused:
  "conforms ExpirationReason (JStr ''SUBSCRIPTION_PAUSED'') \<and>
   \<not> conforms ExpirationReason_flat (JStr ''SUBSCRIPTION_PAUSED'') \<and>
   violations WebhookExpiration expiration_sample = [] \<and>
   violations WebhookExpiration_flat expiration_sample = [''expiration_reason'']"
proof -
  have a: "conforms ExpirationReason (JStr ''SUBSCRIPTION_PAUSED'')"
    by (simp add: ExpirationReason_def)
  have b: "\<not> conforms ExpirationReason_flat (JStr ''SUBSCRIPTION_PAUSED'')"
    by (simp add: ExpirationReason_flat_def)
  have c: "violations WebhookExpiration expiration_sample = []"
    by (simp add: violations_def WebhookExpiration_def WebhookBase_def extends_def
        expiration_sample_def envelope_sample_def helper_defs)
  have d: "violations WebhookExpiration_flat expiration_sample = [''expiration_reason'']"
    by (simp add: violations_def WebhookExpiration_flat_def WebhookBase_flat_def extends_def
        expiration_sample_def envelope_sample_def helper_defs)
  from a b c d show ?thesis by (simp only: simp_thms)
qed

section \<open>Timestamps of the envelope\<close>

text \<open>
  C3: \<open>expiration_at_ms\<close> is nullable, \<open>purchased_at_ms\<close> is not.  Both files declare
  \<open>expiration_at_ms: number\<close>, under a comment (first file) saying that it can be null
  for non-subscription purchases: a non-renewing purchase that conforms stops conforming,
  in both files, once its \<open>expiration_at_ms\<close> is null, exactly as it does for
  \<open>purchased_at_ms\<close>.
\<close>

theorem expiration_at_ms_rejects_null:
  "violations WebhookNonRenewingPurchase purchase_sample = [] \<and>
   violations WebhookNonRenewingPurchase (set_field ''expiration_at_ms'' JNull purchase_sample)
     = [''expiration_at_ms''] \<and>
   violations WebhookNonRenewingPurchase (set_field ''purchased_at_ms'' JNull purchase_sample)
     = [''purchased_at_ms''] \<and>
   violations WebhookNonRenewingPurchase_flat
     (set_field ''expiration_at_ms'' JNull purchase_sample) = [''expiration_at_ms''] \<and>
   field WebhookBase ''expiration_at_ms'' = Some (Required, TNumber) \<and>
   field WebhookBase ''purchased_at_ms'' = Some (Required, TNumber)"
proof -
  have a: "violations WebhookNonRenewingPurchase purchase_sample = []"
    by (simp add: violations_def WebhookNonRenewingPurchase_def WebhookBase_def extends_def
        purchase_sample_def envelope_sample_def helper_defs)
  have b: "violations WebhookNonRenewingPurchase
      (set_field ''expiration_at_ms'' JNull purchase_sample) = [''expiration_at_ms'']"
    by (simp add: violations_def WebhookNonRenewingPurchase_def WebhookBase_def extends_def
        purchase_sample_def envelope_sample_def set_field_def helper_defs)
  have c: "violations WebhookNonRenewingPurchase
      (set_field ''purchased_at_ms'' JNull purchase_sample) = [''purchased_at_ms'']"
    by (simp add: violations_def WebhookNonRenewingPurchase_def WebhookBase_def extends_def
        purchase_sample_def envelope_sample_def set_field_def helper_defs)
  have d: "violations WebhookNonRenewingPurchase_flat
      (set_field ''expiration_at_ms'' JNull purchase_sample) = [''expiration_at_ms'']"
    by (simp add: violations_def WebhookNonRenewingPurchase_flat_def WebhookBase_flat_def
        extends_def purchase_sample_def envelope_sample_def set_field_def helper_defs)
  have e: "field WebhookBase ''expiration_at_ms'' = Some (Required, TNumber)"
    by (simp add: field_def WebhookBase_def)
  have f: "field WebhookBase ''purchased_at_ms'' = Some (Required, TNumber)"
    by (simp add: field_def WebhookBase_def)
  from a b c d e f show ?thesis by (simp only: simp_thms)
qed

section \<open>The two variants outside the envelope\<close>

lemma conforms_props_extra:
  "k \<notin> set (map prop_name ps) \<Longrightarrow>
   conforms_props ps ((k, x) # kvs) = conforms_props ps kvs"
proof (induction ps)
  case Nil
  show ?case by simp
next
  case (Cons p ps)
  then show ?case by (cases p) auto
qed

text \<open>
  C4: the transfer variant declares exactly \<open>type\<close> (the literal \<open>TRANSFER\<close>), \<open>id\<close>,
  \<open>app_id\<close>, \<open>environment\<close>, \<open>store\<close>, \<open>event_timestamp_ms\<close>, \<open>transferred_from\<close> and
  \<open>transferred_to\<close> (two lists of strings), all required.  It declares no
  \<open>app_user_id\<close>, so that key never matters for conformance; it does not carry the
  envelope, with which it shares five property names only; and an object with these
  eight keys alone conforms.
\<close>

theorem WebhookTransfer_fields:
  "field_names WebhookTransfer =
     [''type'', ''id'', ''app_id'', ''environment'', ''store'', ''event_timestamp_ms'',
      ''transferred_from'', ''transferred_to''] \<and>
   field WebhookTransfer ''type'' = Some (Required, TLit ''TRANSFER'') \<and>
   field WebhookTransfer ''id'' = Some (Required, TString) \<and>
   field WebhookTransfer ''app_id'' = Some (Required, TString) \<and>
   field WebhookTransfer ''environment'' = Some (Required, Environment) \<and>
   field WebhookTransfer ''store'' = Some (Required, Store) \<and>
   field WebhookTransfer ''event_timestamp_ms'' = Some (Required, TNumber) \<and>
   field WebhookTransfer ''transferred_from'' = Some (Required, TArray TString) \<and>
   field WebhookTransfer ''transferred_to'' = Some (Required, TArray TString) \<and>
   field WebhookTransfer ''app_user_id'' = None \<and>
   filter (\<lambda>n. n \<in> set (field_names WebhookTransfer)) (field_names WebhookBase) =
     [''id'', ''app_id'', ''event_timestamp_ms'', ''environment'', ''store''] \<and>
   \<not> carries_envelope WebhookBase (TObject WebhookTransfer) \<and>
   conforms (TObject WebhookTransfer) (JObj transfer_sample) \<and>
   conforms (TObject WebhookTransfer) (JObj ((''app_user_id'', x) # kvs)) =
     conforms (TObject WebhookTransfer) (JObj kvs)"
proof -
  have names: "field_names WebhookTransfer =
     [''type'', ''id'', ''app_id'', ''environment'', ''store'', ''event_timestamp_ms'',
      ''transferred_from'', ''transferred_to'']"
    by (simp add: field_names_def WebhookTransfer_def)
  have fields: "field WebhookTransfer ''type'' = Some (Required, TLit ''TRANSFER'')"
    "field WebhookTransfer ''id'' = Some (Required, TString)"
    "field WebhookTransfer ''app_id'' = Some (Required, TString)"
    "field WebhookTransfer ''environment'' = Some (Required, Environment)"
    "field WebhookTransfer ''store'' = Some (Required, Store)"
    "field WebhookTransfer ''event_timestamp_ms'' = Some (Required, TNumber)"
    "field WebhookTransfer ''transferred_from'' = Some (Required, TArray TString)"
    "field WebhookTransfer ''transferred_to'' = Some (Required, TArray TString)"
    "field WebhookTransfer ''app_user_id'' = None"
    by (simp_all add: field_def WebhookTransfer_def)
  have shared: "filter (\<lambda>n. n \<in> set (field_names WebhookTransfer)) (field_names WebhookBase) =
     [''id'', ''app_id'', ''event_timestamp_ms'', ''environment'', ''store'']"
    by (simp add: names) (simp add: field_names_def WebhookBase_def)
  have no_env: "\<not> carries_envelope WebhookBase (TObject WebhookTransfer)"
    by (simp add: carries_envelope_def WebhookBase_def WebhookTransfer_def)
  have sample: "conforms (TObject WebhookTransfer) (JObj transfer_sample)"
    by (simp add: WebhookTransfer_def transfer_sample_def helper_defs)
  have "''app_user_id'' \<notin> set (map prop_name WebhookTransfer)"
    using names by (simp add: field_names_def)
  then have extra: "conforms (TObject WebhookTransfer) (JObj ((''app_user_id'', x) # kvs)) =
     conforms (TObject WebhookTransfer) (JObj kvs)"
    by (simp add: conforms_props_extra)
  from names fields shared no_env sample extra show ?thesis by (simp only: simp_thms)
qed

text \<open>
  C5, as stated, fails in the second file: its grant interface declares no \<open>id\<close>, and
  its \<open>entitlement_ids\<close> is a list of strings that may not be null (a grant that
  conforms stops conforming once \<open>entitlement_ids\<close> is null).
\<close>

theorem flat_grant_has_no_id:
  "field WebhookTemporaryEntitlementGrant_flat ''id'' = None \<and>
   violations WebhookTemporaryEntitlementGrant_flat grant_sample = [] \<and>
   violations WebhookTemporaryEntitlementGrant_flat
     (set_field ''entitlement_ids'' JNull grant_sample) = [''entitlement_ids'']"
proof -
  have a: "field WebhookTemporaryEntitlementGrant_flat ''id'' = None"
    by (simp add: field_def WebhookTemporaryEntitlementGrant_flat_def)
  have b: "violations WebhookTemporaryEntitlementGrant_flat grant_sample = []"
    by (simp add: violations_def WebhookTemporaryEntitlementGrant_flat_def grant_sample_def
        helper_defs)
  have c: "violations WebhookTemporaryEntitlementGrant_flat
     (set_field ''entitlement_ids'' JNull grant_sample) = [''entitlement_ids'']"
    by (simp add: violations_def WebhookTemporaryEntitlementGrant_flat_def grant_sample_def
        set_field_def helper_defs)
  from a b c show ?thesis by (simp only: simp_thms)
qed

text \<open>
  C5 (amended): the temporary entitlement grant does not carry the envelope and declares
  a reduced set of properties, all required, none of them \<open>app_id\<close>, \<open>price\<close> or
  \<open>currency\<close>.  In the first file these are \<open>type\<close> (the literal), \<open>id\<close>,
  \<open>app_user_id\<close>, \<open>purchased_at_ms\<close>, \<open>expiration_at_ms\<close>, \<open>event_timestamp_ms\<close>,
  \<open>product_id\<close>, \<open>entitlement_ids\<close> (a list of strings or null), \<open>store\<close> and
  \<open>transaction_id\<close>.  In the second file they are the same without \<open>id\<close>, and
  \<open>entitlement_ids\<close> is a list of strings, not nullable.
\<close>

theorem WebhookTemporaryEntitlementGrant_fields:
  "field_names WebhookTemporaryEntitlementGrant =
     [''type'', ''id'', ''app_user_id'', ''purchased_at_ms'', ''expiration_at_ms'',
      ''event_timestamp_ms'', ''product_id'', ''entitlement_ids'', ''store'',
      ''transaction_id''] \<and>
   map (field WebhookTemporaryEntitlementGrant)
     [''type'', ''id'', ''app_user_id'', ''purchased_at_ms'', ''expiration_at_ms'',
      ''event_timestamp_ms'', ''product_id'', ''entitlement_ids'', ''store'',
      ''transaction_id''] =
     [Some (Required, TLit ''TEMPORARY_ENTITLEMENT_GRANT''), Some (Required, TString),
      Some (Required, TString), Some (Required, TNumber), Some (Required, TNumber),
      Some (Required, TNumber), Some (Required, TString),
      Some (Required, TUnion [TArray TString, TNull]), Some (Required, Store),
      Some (Required, TString)] \<and>
   map (field WebhookTemporaryEntitlementGrant) [''app_id'', ''price'', ''currency''] =
     [None, None, None] \<and>
   \<not> carries_envelope WebhookBase (TObject WebhookTemporaryEntitlementGrant) \<and>
   violations WebhookTemporaryEntitlementGrant grant_sample = [] \<and>
   violations WebhookTemporaryEntitlementGrant
     (set_field ''entitlement_ids'' JNull grant_sample) = [] \<and>
   field_names WebhookTemporaryEntitlementGrant_flat =
     [''type'', ''app_user_id'', ''purchased_at_ms'', ''expiration_at_ms'',
      ''event_timestamp_ms'', ''product_id'', ''entitlement_ids'', ''store'',
      ''transaction_id''] \<and>
   map (field WebhookTemporaryEntitlementGrant_flat)
     [''type'', ''app_user_id'', ''purchased_at_ms'', ''expiration_at_ms'',
      ''event_timestamp_ms'', ''product_id'', ''entitlement_ids'', ''store'',
      ''transaction_id''] =
     [Some (Required, TLit ''TEMPORARY_ENTITLEMENT_GRANT''),
      Some (Required, TString), Some (Required, TNumber), Some (Required, TNumber),
      Some (Required, TNumber), Some (Required, TString),
      Some (Required, TArray TString), Some (Required, Store),
      Some (Required, TString)] \<and>
   map (field WebhookTemporaryEntitlementGrant_flat) [''app_id'', ''price'', ''currency''] =
     [None, None, None] \<and>
   \<not> carries_envelope WebhookBase_flat (TObject WebhookTemporaryEntitlementGrant_flat)"
proof -
  have a: "field_names WebhookTemporaryEntitlementGrant =
     [''type'', ''id'', ''app_user_id'', ''purchased_at_ms'', ''expiration_at_ms'',
      ''event_timestamp_ms'', ''product_id'', ''entitlement_ids'', ''store'',
      ''transaction_id'']"
    by (simp add: field_names_def WebhookTemporaryEntitlementGrant_def)
  have b: "map (field WebhookTemporaryEntitlementGrant)
     [''type'', ''id'', ''app_user_id'', ''purchased_at_ms'', ''expiration_at_ms'',
      ''event_timestamp_ms'', ''product_id'', ''entitlement_ids'', ''store'',
      ''transaction_id''] =
     [Some (Required, TLit ''TEMPORARY_ENTITLEMENT_GRANT''), Some (Required, TString),
      Some (Required, TString), Some (Required, TNumber), Some (Required, TNumber),
      Some (Required, TNumber), Some (Required, TString),
      Some (Required, TUnion [TArray TString, TNull]), Some (Required, Store),
      Some (Required, TString)]"
    by (simp add: field_def WebhookTemporaryEntitlementGrant_def)
  have c: "map (field WebhookTemporaryEntitlementGrant) [''app_id'', ''price'', ''currency''] =
     [None, None, None]"
    by (simp add: field_def WebhookTemporaryEntitlementGrant_def)
  have d: "\<not> carries_envelope WebhookBase (TObject WebhookTemporaryEntitlementGrant)"
    by (simp add: carries_envelope_def WebhookBase_def WebhookTemporaryEntitlementGrant_def)
  have e: "violations WebhookTemporaryEntitlementGrant grant_sample = []"
    by (simp add: violations_def WebhookTemporaryEntitlementGrant_def grant_sample_def
        helper_defs)
  have f: "violations WebhookTemporaryEntitlementGrant
     (set_field ''entitlement_ids'' JNull grant_sample) = []"
    by (simp add: violations_def WebhookTemporaryEntitlementGrant_def grant_sample_def
        set_field_def helper_defs)
  have g: "field_names WebhookTemporaryEntitlementGrant_flat =
     [''type'', ''app_user_id'', ''purchased_at_ms'', ''expiration_at_ms'',
      ''event_timestamp_ms'', ''product_id'', ''entitlement_ids'', ''store'',
      ''transaction_id'']"
    by (simp add: field_names_def WebhookTemporaryEntitlementGrant_flat_def)
  have h: "map (field WebhookTemporaryEntitlementGrant_flat)
     [''type'', ''app_user_id'', ''purchased_at_ms'', ''expiration_at_ms'',
      ''event_timestamp_ms'', ''product_id'', ''entitlement_ids'', ''store'',
      ''transaction_id''] =
     [Some (Required, TLit ''TEMPORARY_ENTITLEMENT_GRANT''),
      Some (Required, TString), Some (Required, TNumber), Some (Required, TNumber),
      Some (Required, TNumber), Some (Required, TString),
      Some (Required, TArray TString), Some (Required, Store),
      Some (Required, TString)]"
    by (simp add: field_def WebhookTemporaryEntitlementGrant_flat_def)
  have i: "map (field WebhookTemporaryEntitlementGrant_flat)
      [''app_id'', ''price'', ''currency''] = [None, None, None]"
    by (simp add: field_def WebhookTemporaryEntitlementGrant_flat_def)
  have j: "\<not> carries_envelope WebhookBase_flat (TObject WebhookTemporaryEntitlementGrant_flat)"
    by (simp add: carries_envelope_def WebhookBase_flat_def
        WebhookTemporaryEntitlementGrant_flat_def)
  from a b c d e f g h i j show ?thesis by (simp only: simp_thms)
qed

section \<open>Narrowing is unambiguous\<close>

lemma conforms_props_find:
  "find (\<lambda>p. prop_name p = n) ps = Some p \<Longrightarrow> conforms_props ps kvs \<Longrightarrow> conforms_prop p kvs"
  by (induction ps) (auto split: if_splits)

lemma conforms_discriminant:
  assumes "discriminant s = Some t" and "conforms s v"
  shows "type_of_event v = Some t"
proof -
  from assms(1) obtain ps where s: "s = TObject ps"
    by (cases s) (simp_all add: discriminant_def field_def)
  from assms(1) s obtain p where p: "find (\<lambda>p. prop_name p = ''type'') ps = Some p"
    and pt: "prop_presence p = Required" "prop_type p = TLit t"
    by (auto simp: discriminant_def field_def split: option.splits presence.splits ty.splits)
  from assms(2) s obtain kvs where v: "v = JObj kvs" and c: "conforms_props ps kvs"
    by (cases v) simp_all
  from p have n: "prop_name p = ''type''"
    by (auto simp: find_Some_iff)
  from conforms_props_find [OF p c] pt n have "map_of kvs ''type'' = Some (JStr t)"
    by (cases p) (auto split: option.splits json.splits)
  with v show ?thesis by (simp add: type_of_event_def)
qed

lemma filter_distinct_key:
  "distinct (map f xs) \<Longrightarrow> x \<in> set xs \<Longrightarrow> filter (\<lambda>y. f y = f x) xs = [x]"
proof (induction xs)
  case Nil
  then show ?case by simp
next
  case (Cons a xs)
  show ?case
  proof (cases "a = x")
    case True
    with Cons.prems have "\<forall>y\<in>set xs. f y \<noteq> f x" by (fastforce simp: image_iff)
    then have "filter (\<lambda>y. f y = f x) xs = []" by (simp add: filter_empty_conv)
    with True show ?thesis by simp
  next
    case False
    with Cons.prems have "x \<in> set xs" "f a \<noteq> f x" by auto
    with Cons show ?thesis by simp
  qed
qed

lemma example_completed_conforms:
  "conforms (TObject WebhookRenewal) (JObj (example_renewal @ absent_keys_as_null))"
  by (simp add: WebhookRenewal_def WebhookBase_def extends_def example_renewal_def
      absent_keys_as_null_def helper_defs)

text \<open>
  C10: in each of the two unions the literal tags of the members are pairwise distinct,
  and a value that conforms to a member \<open>s\<close> of the union has the tag of \<open>s\<close> as its
  \<open>type\<close>; so selecting the members of the union by the value's \<open>type\<close> yields \<open>s\<close>
  and nothing else.
\<close>

theorem discriminant_selects_variant:
  assumes "u = Webhook_event \<or> u = Webhook_flat"
    and "s \<in> set (variants u)"
    and "conforms s v"
  shows "distinct (map discriminant (variants u)) \<and>
         filter (\<lambda>s'. discriminant s' = type_of_event v) (variants u) = [s]"
proof -
  from assms(1) have d: "distinct (map discriminant (variants u))"
    by (auto simp only: Webhook_event_discriminants Webhook_flat_discriminants) simp_all
  from assms(1) have "None \<notin> set (map discriminant (variants u))"
    by (auto simp only: Webhook_event_discriminants Webhook_flat_discriminants) simp_all
  moreover from assms(2) have "discriminant s \<in> set (map discriminant (variants u))"
    by simp
  ultimately obtain t where t: "discriminant s = Some t"
    by (cases "discriminant s") auto
  from conforms_discriminant [OF t assms(3)] t
  have "type_of_event v = discriminant s" by simp
  with filter_distinct_key [OF d assms(2)] d show ?thesis by simp
qed

theorem discriminant_selects_variant_witness:
  "distinct (map discriminant (variants Webhook_event)) \<and>
   filter (\<lambda>s'. discriminant s' =
       type_of_event (JObj (example_renewal @ absent_keys_as_null)))
     (variants Webhook_event) = [TObject WebhookRenewal]"
proof -
  have "TObject WebhookRenewal \<in> set (variants Webhook_event)"
    by (simp add: Webhook_event_def)
  from discriminant_selects_variant [OF _ this example_completed_conforms]
  show ?thesis by simp
qed

section \<open>Changing one property of an event\<close>

lemma map_of_filter_other:
  "n \<noteq> k \<Longrightarrow> map_of (filter (\<lambda>kv. fst kv \<noteq> k) kvs) n = map_of kvs n"
  by (induction kvs) auto

lemma map_of_filter_same: "map_of (filter (\<lambda>kv. fst kv \<noteq> k) kvs) k = None"
  by (induction kvs) auto

lemma conforms_prop_set_field:
  "conforms_prop p (set_field k x kvs) =
     (if prop_name p = k then conforms (prop_type p) x else conforms_prop p kvs)"
  by (cases p) (simp add: set_field_def map_of_filter_other)

lemma conforms_prop_del_field:
  "conforms_prop p (del_field k kvs) =
     (if prop_name p = k then prop_presence p = Optional else conforms_prop p kvs)"
  by (cases p) (simp add: del_field_def map_of_filter_other map_of_filter_same)

lemma conforms_props_iff: "conforms_props ps kvs \<longleftrightarrow> (\<forall>p\<in>set ps. conforms_prop p kvs)"
  by (induction ps) auto

lemma set_extends:
  "set (extends base own) =
     set own \<union> {p \<in> set base. prop_name p \<notin> set (field_names own)}"
  by (auto simp: extends_def field_names_def)

lemma carries_envelope_extends:
  "set (field_names own) \<inter> set (field_names base) = {} \<Longrightarrow>
   carries_envelope base (TObject (extends base own))"
  by (auto simp: carries_envelope_def list_all_iff set_extends field_names_def)

lemma set_field_extends_ok:
  assumes "k \<notin> set (field_names own)"
    and "\<And>p. p \<in> set base \<Longrightarrow> prop_name p = k \<Longrightarrow> conforms (prop_type p) x"
    and "conforms (TObject (extends base own)) (JObj kvs)"
  shows "conforms (TObject (extends base own)) (JObj (set_field k x kvs))"
  using assms
  by (auto simp: conforms_props_iff conforms_prop_set_field set_extends field_names_def)

lemma set_field_extends_bad:
  assumes "k \<notin> set (field_names own)"
    and "p \<in> set base" and "prop_name p = k" and "\<not> conforms (prop_type p) x"
  shows "\<not> conforms (TObject (extends base own)) (JObj (set_field k x kvs))"
  using assms
  by (auto simp: conforms_props_iff conforms_prop_set_field set_extends)

lemma envelope_variants_nested:
  assumes "s \<in> set (variants Webhook_event)" and "carries_envelope WebhookBase s"
    and "\<And>own. set (field_names own) \<subseteq>
           {''type'', ''is_trial_conversion'', ''cancel_reason'', ''expiration_reason'',
            ''auto_resume_at_ms'', ''grace_period_expiration_at_ms'', ''new_product_id''}
         \<Longrightarrow> P (TObject (extends WebhookBase own))"
  shows "P s"
proof -
  have "\<not> carries_envelope WebhookBase (TObject WebhookTemporaryEntitlementGrant)"
    by (simp add: carries_envelope_def WebhookBase_def WebhookTemporaryEntitlementGrant_def)
  moreover have "\<not> carries_envelope WebhookBase (TObject WebhookTransfer)"
    by (simp add: carries_envelope_def WebhookBase_def WebhookTransfer_def)
  ultimately have "s \<in> {TObject WebhookInitialPurchase, TObject WebhookRenewal,
      TObject WebhookCancellation, TObject WebhookUnCancellation,
      TObject WebhookNonRenewingPurchase, TObject WebhookExpiration,
      TObject WebhookSubscriptionPaused, TObject WebhookBillingIssue,
      TObject WebhookProductChange, TObject WebhookSubscriptionExtended}"
    using assms(1,2) by (auto simp: Webhook_event_def)
  then show ?thesis
    unfolding WebhookInitialPurchase_def WebhookRenewal_def WebhookCancellation_def
      WebhookUnCancellation_def WebhookNonRenewingPurchase_def WebhookExpiration_def
      WebhookSubscriptionPaused_def WebhookBillingIssue_def WebhookProductChange_def
      WebhookSubscriptionExtended_def
    by (auto simp: field_names_def intro!: assms(3))
qed

lemma envelope_variants_flat:
  assumes "s \<in> set (variants Webhook_flat)" and "carries_envelope WebhookBase_flat s"
    and "\<And>own. set (field_names own) \<subseteq>
           {''type'', ''cancel_reason'', ''expiration_reason'', ''new_product_id''}
         \<Longrightarrow> P (TObject (extends WebhookBase_flat own))"
  shows "P s"
proof -
  have "\<not> carries_envelope WebhookBase_flat (TObject WebhookTemporaryEntitlementGrant_flat)"
    by (simp add: carries_envelope_def WebhookBase_flat_def
        WebhookTemporaryEntitlementGrant_flat_def)
  then have "s \<in> {TObject WebhookInitialPurchase_flat, TObject WebhookRenewal_flat,
      TObject WebhookCancellation_flat, TObject WebhookUnCancellation_flat,
      TObject WebhookNonRenewingPurchase_flat, TObject WebhookExpiration_flat,
      TObject WebhookSubscriptionPaused_flat, TObject WebhookBillingIssue_flat,
      TObject WebhookProductChange_flat, TObject WebhookSubscriptionExtended_flat}"
    using assms(1,2) by (auto simp: Webhook_flat_def)
  then show ?thesis
    unfolding WebhookInitialPurchase_flat_def WebhookRenewal_flat_def
      WebhookCancellation_flat_def WebhookUnCancellation_flat_def
      WebhookNonRenewingPurchase_flat_def WebhookExpiration_flat_def
      WebhookSubscriptionPaused_flat_def WebhookBillingIssue_flat_def
      WebhookProductChange_flat_def WebhookSubscriptionExtended_flat_def
    by (auto simp: field_names_def intro!: assms(3))
qed

lemma price_declared_nested:
  assumes "k = ''price'' \<or> k = ''price_in_purchased_currency''"
    and "p \<in> set WebhookBase" and "prop_name p = k"
  shows "prop_type p = TUnion [TNumber, TNull]"
  using assms by (auto simp: WebhookBase_def)

lemma price_declared_flat:
  assumes "k = ''price'' \<or> k = ''price_in_purchased_currency''"
    and "p \<in> set WebhookBase_flat" and "prop_name p = k"
  shows "prop_type p = TNumber"
  using assms by (auto simp: WebhookBase_flat_def)

lemma price_in_flat:
  assumes "k = ''price'' \<or> k = ''price_in_purchased_currency''"
  shows "Prop k Required TNumber \<in> set WebhookBase_flat"
  using assms by (auto simp: WebhookBase_flat_def)

lemma purchase_sample_conforms:
  "conforms (TObject WebhookNonRenewingPurchase) (JObj purchase_sample)"
  "conforms (TObject WebhookNonRenewingPurchase_flat) (JObj purchase_sample)"
  by (simp_all add: WebhookNonRenewingPurchase_def WebhookBase_def
      WebhookNonRenewingPurchase_flat_def WebhookBase_flat_def extends_def
      purchase_sample_def envelope_sample_def helper_defs)

lemma product_change_sample_conforms:
  "conforms (TObject WebhookProductChange) (JObj product_change_sample)"
  "conforms (TObject WebhookProductChange_flat) (JObj product_change_sample)"
  by (simp_all add: WebhookProductChange_def WebhookBase_def
      WebhookProductChange_flat_def WebhookBase_flat_def extends_def
      product_change_sample_def envelope_sample_def helper_defs)

subsection \<open>Prices\<close>

text \<open>
  C6, as stated, fails in the second file, whose base interface declares both prices as
  \<open>number\<close>: a purchase that conforms stops conforming once either price is null.
\<close>

theorem flat_price_rejects_null:
  "violations WebhookNonRenewingPurchase_flat purchase_sample = [] \<and>
   violations WebhookNonRenewingPurchase_flat (set_field ''price'' JNull purchase_sample) =
     [''price''] \<and>
   violations WebhookNonRenewingPurchase_flat
     (set_field ''price_in_purchased_currency'' JNull purchase_sample) =
     [''price_in_purchased_currency'']"
proof -
  have a: "violations WebhookNonRenewingPurchase_flat purchase_sample = []"
    by (simp add: violations_def WebhookNonRenewingPurchase_flat_def WebhookBase_flat_def
        extends_def purchase_sample_def envelope_sample_def helper_defs)
  have b: "violations WebhookNonRenewingPurchase_flat
      (set_field ''price'' JNull purchase_sample) = [''price'']"
    by (simp add: violations_def WebhookNonRenewingPurchase_flat_def WebhookBase_flat_def
        extends_def purchase_sample_def envelope_sample_def set_field_def helper_defs)
  have c: "violations WebhookNonRenewingPurchase_flat
      (set_field ''price_in_purchased_currency'' JNull purchase_sample) =
      [''price_in_purchased_currency'']"
    by (simp add: violations_def WebhookNonRenewingPurchase_flat_def WebhookBase_flat_def
        extends_def purchase_sample_def envelope_sample_def set_field_def helper_defs)
  from a b c show ?thesis by (simp only: simp_thms)
qed

text \<open>
  C6 (amended): \<open>price\<close> and \<open>price_in_purchased_currency\<close> are numeric properties of
  the envelope, and any number (zero for a trial, negative for a refund) is permitted in
  every variant that carries the envelope, in both files.  In the first file both are
  nullable as well: every such variant permits null.  In the second file they are not:
  every such variant rejects null.
\<close>

theorem price_fields_nullability:
  assumes "k = ''price'' \<or> k = ''price_in_purchased_currency''"
  shows "(s \<in> set (variants Webhook_event) \<longrightarrow> carries_envelope WebhookBase s \<longrightarrow>
            conforms s (JObj kvs) \<longrightarrow>
            conforms s (JObj (set_field k JNull kvs)) \<and>
            conforms s (JObj (set_field k (JNum r) kvs)))
       \<and> (s' \<in> set (variants Webhook_flat) \<longrightarrow> carries_envelope WebhookBase_flat s' \<longrightarrow>
            conforms s' (JObj kvs) \<longrightarrow>
            \<not> conforms s' (JObj (set_field k JNull kvs)) \<and>
            conforms s' (JObj (set_field k (JNum r) kvs)))"
proof (intro conjI impI)
  assume s: "s \<in> set (variants Webhook_event)" "carries_envelope WebhookBase s"
    and c: "conforms s (JObj kvs)"
  have "conforms s (JObj kvs) \<longrightarrow>
          conforms s (JObj (set_field k JNull kvs)) \<and>
          conforms s (JObj (set_field k (JNum r) kvs))"
  proof (rule envelope_variants_nested [OF s], intro impI conjI)
    fix own
    assume own: "set (field_names own) \<subseteq>
           {''type'', ''is_trial_conversion'', ''cancel_reason'', ''expiration_reason'',
            ''auto_resume_at_ms'', ''grace_period_expiration_at_ms'', ''new_product_id''}"
      and c': "conforms (TObject (extends WebhookBase own)) (JObj kvs)"
    from own assms have k: "k \<notin> set (field_names own)" by auto
    show "conforms (TObject (extends WebhookBase own)) (JObj (set_field k JNull kvs))"
      by (rule set_field_extends_ok [OF k _ c']) (simp add: price_declared_nested [OF assms])
    show "conforms (TObject (extends WebhookBase own)) (JObj (set_field k (JNum r) kvs))"
      by (rule set_field_extends_ok [OF k _ c']) (simp add: price_declared_nested [OF assms])
  qed
  with c show "conforms s (JObj (set_field k JNull kvs))"
    and "conforms s (JObj (set_field k (JNum r) kvs))" by simp_all
next
  assume s: "s' \<in> set (variants Webhook_flat)" "carries_envelope WebhookBase_flat s'"
    and c: "conforms s' (JObj kvs)"
  have "conforms s' (JObj kvs) \<longrightarrow>
          \<not> conforms s' (JObj (set_field k JNull kvs)) \<and>
          conforms s' (JObj (set_field k (JNum r) kvs))"
  proof (rule envelope_variants_flat [OF s], intro impI conjI)
    fix own
    assume own: "set (field_names own) \<subseteq>
           {''type'', ''cancel_reason'', ''expiration_reason'', ''new_product_id''}"
      and c': "conforms (TObject (extends WebhookBase_flat own)) (JObj kvs)"
    from own assms have k: "k \<notin> set (field_names own)" by auto
    show "\<not> conforms (TObject (extends WebhookBase_flat own)) (JObj (set_field k JNull kvs))"
      by (rule set_field_extends_bad [OF k price_in_flat [OF assms]]) simp_all
    show "conforms (TObject (extends WebhookBase_flat own)) (JObj (set_field k (JNum r) kvs))"
      by (rule set_field_extends_ok [OF k _ c']) (simp add: price_declared_flat [OF assms])
  qed
  with c show "\<not> conforms s' (JObj (set_field k JNull kvs))"
    and "conforms s' (JObj (set_field k (JNum r) kvs))" by simp_all
qed

theorem price_fields_nullability_witness:
  "conforms (TObject WebhookNonRenewingPurchase)
     (JObj (set_field ''price'' JNull purchase_sample)) \<and>
   conforms (TObject WebhookNonRenewingPurchase)
     (JObj (set_field ''price'' (JNum (- 1)) purchase_sample)) \<and>
   \<not> conforms (TObject WebhookNonRenewingPurchase_flat)
     (JObj (set_field ''price'' JNull purchase_sample)) \<and>
   conforms (TObject WebhookNonRenewingPurchase_flat)
     (JObj (set_field ''price'' (JNum (- 1)) purchase_sample))"
proof -
  have a: "TObject WebhookNonRenewingPurchase \<in> set (variants Webhook_event)"
    by (simp add: Webhook_event_def)
  have b: "carries_envelope WebhookBase (TObject WebhookNonRenewingPurchase)"
    unfolding WebhookNonRenewingPurchase_def
    by (rule carries_envelope_extends) (simp add: field_names_def WebhookBase_def)
  have c: "TObject WebhookNonRenewingPurchase_flat \<in> set (variants Webhook_flat)"
    by (simp add: Webhook_flat_def)
  have d: "carries_envelope WebhookBase_flat (TObject WebhookNonRenewingPurchase_flat)"
    unfolding WebhookNonRenewingPurchase_flat_def
    by (rule carries_envelope_extends) (simp add: field_names_def WebhookBase_flat_def)
  from price_fields_nullability [of "''price''" "TObject WebhookNonRenewingPurchase"
      purchase_sample "- 1" "TObject WebhookNonRenewingPurchase_flat"]
    a b c d purchase_sample_conforms
  show ?thesis by simp
qed

subsection \<open>The product change\<close>

lemma del_field_interface_bad:
  assumes "p \<in> set ps" and "prop_name p = k" and "prop_presence p = Required"
  shows "\<not> conforms (TObject ps) (JObj (del_field k kvs))"
proof -
  from assms(2,3) have "\<not> conforms_prop p (del_field k kvs)"
    by (simp add: conforms_prop_del_field)
  with assms(1) show ?thesis by (auto simp: conforms_props_iff)
qed

lemma set_field_interface_ok:
  assumes "\<And>p. p \<in> set ps \<Longrightarrow> prop_name p = k \<Longrightarrow> conforms (prop_type p) x"
    and "conforms (TObject ps) (JObj kvs)"
  shows "conforms (TObject ps) (JObj (set_field k x kvs))"
  using assms by (auto simp: conforms_props_iff conforms_prop_set_field)

lemma new_product_id_nested:
  assumes "p \<in> set WebhookProductChange" and "prop_name p = ''new_product_id''"
  shows "p = Prop ''new_product_id'' Optional TString"
  using assms by (auto simp: WebhookProductChange_def WebhookBase_def extends_def)

lemma new_product_id_flat:
  assumes "p \<in> set WebhookProductChange_flat" and "prop_name p = ''new_product_id''"
  shows "p = Prop ''new_product_id'' Required TString"
  using assms by (auto simp: WebhookProductChange_flat_def WebhookBase_flat_def extends_def)

text \<open>
  C7, as stated, fails in the second file, which declares \<open>new_product_id: string\<close>
  without the question mark: a product change that conforms stops conforming once the
  key is absent.
\<close>

theorem flat_product_change_needs_new_product_id:
  "violations WebhookProductChange_flat product_change_sample = [] \<and>
   violations WebhookProductChange_flat (del_field ''new_product_id'' product_change_sample) =
     [''new_product_id'']"
proof -
  have a: "violations WebhookProductChange_flat product_change_sample = []"
    by (simp add: violations_def WebhookProductChange_flat_def WebhookBase_flat_def
        extends_def product_change_sample_def envelope_sample_def helper_defs)
  have b: "violations WebhookProductChange_flat
      (del_field ''new_product_id'' product_change_sample) = [''new_product_id'']"
    by (simp add: violations_def WebhookProductChange_flat_def WebhookBase_flat_def
        extends_def product_change_sample_def envelope_sample_def del_field_def helper_defs)
  from a b show ?thesis by (simp only: simp_thms)
qed

text \<open>
  C7 (amended): the product change extends the envelope with a property
  \<open>new_product_id\<close> of type string.  In the first file the property is optional: a
  conforming value conforms with the key present as a string and with the key absent.
  In the second file it is required: a conforming value conforms with the key present as
  a string and does not conform with the key absent.
\<close>

theorem new_product_id_optionality:
  "carries_envelope WebhookBase (TObject WebhookProductChange) \<and>
   carries_envelope WebhookBase_flat (TObject WebhookProductChange_flat) \<and>
   (conforms (TObject WebhookProductChange) (JObj kvs) \<longrightarrow>
      conforms (TObject WebhookProductChange) (JObj (set_field ''new_product_id'' (JStr x) kvs)) \<and>
      conforms (TObject WebhookProductChange) (JObj (del_field ''new_product_id'' kvs))) \<and>
   (conforms (TObject WebhookProductChange_flat) (JObj kvs') \<longrightarrow>
      conforms (TObject WebhookProductChange_flat)
        (JObj (set_field ''new_product_id'' (JStr x) kvs')) \<and>
      \<not> conforms (TObject WebhookProductChange_flat) (JObj (del_field ''new_product_id'' kvs')))"
proof (intro conjI impI)
  show "carries_envelope WebhookBase (TObject WebhookProductChange)"
    unfolding WebhookProductChange_def
    by (rule carries_envelope_extends) (simp add: field_names_def WebhookBase_def)
  show "carries_envelope WebhookBase_flat (TObject WebhookProductChange_flat)"
    unfolding WebhookProductChange_flat_def
    by (rule carries_envelope_extends) (simp add: field_names_def WebhookBase_flat_def)
next
  assume c: "conforms (TObject WebhookProductChange) (JObj kvs)"
  show "conforms (TObject WebhookProductChange) (JObj (set_field ''new_product_id'' (JStr x) kvs))"
    by (rule set_field_interface_ok [OF _ c]) (auto dest: new_product_id_nested)
  from c show "conforms (TObject WebhookProductChange) (JObj (del_field ''new_product_id'' kvs))"
    by (auto simp: conforms_props_iff conforms_prop_del_field dest: new_product_id_nested)
next
  assume c: "conforms (TObject WebhookProductChange_flat) (JObj kvs')"
  show "conforms (TObject WebhookProductChange_flat)
        (JObj (set_field ''new_product_id'' (JStr x) kvs'))"
    by (rule set_field_interface_ok [OF _ c]) (auto dest: new_product_id_flat)
  have "Prop ''new_product_id'' Required TString \<in> set WebhookProductChange_flat"
    by (simp add: WebhookProductChange_flat_def extends_def)
  then show "\<not> conforms (TObject WebhookProductChange_flat)
      (JObj (del_field ''new_product_id'' kvs'))"
    by (rule del_field_interface_bad) simp_all
qed

theorem new_product_id_optionality_witness:
  "conforms (TObject WebhookProductChange)
     (JObj (set_field ''new_product_id'' (JStr ''p3'') product_change_sample)) \<and>
   conforms (TObject WebhookProductChange)
     (JObj (del_field ''new_product_id'' product_change_sample)) \<and>
   conforms (TObject WebhookProductChange_flat)
     (JObj (set_field ''new_product_id'' (JStr ''p3'') product_change_sample)) \<and>
   \<not> conforms (TObject WebhookProductChange_flat)
     (JObj (del_field ''new_product_id'' product_change_sample))"
  using new_product_id_optionality [of product_change_sample "''p3''" product_change_sample]
    product_change_sample_conforms
  by simp

section \<open>Narrowing a payload\<close>

text \<open>
  C8: when the \<open>type\<close> of an object is none of the twelve known literals, narrowing
  (against the union of either file) yields \<open>UnknownEventType\<close>, which is a result of
  the total function \<open>Narrow\<close>, is not a variant, and differs from every
  \<open>MalformedShape\<close>.
\<close>

theorem Narrow_unknown_type:
  assumes "map_of kvs ''type'' = Some x"
    and "x \<notin> JStr ` set [''INITIAL_PURCHASE'', ''RENEWAL'', ''CANCELLATION'',
       ''UNCANCELLATION'', ''NON_RENEWING_PURCHASE'', ''EXPIRATION'', ''SUBSCRIPTION_PAUSED'',
       ''BILLING_ISSUE'', ''PRODUCT_CHANGE'', ''SUBSCRIPTION_EXTENDED'',
       ''TEMPORARY_ENTITLEMENT_GRANT'', ''TRANSFER'']"
  shows "Narrow Webhook_event (JObj kvs) = Inl UnknownEventType \<and>
         Narrow Webhook_flat (JObj kvs) = Inl UnknownEventType \<and>
         UnknownEventType \<noteq> MalformedShape vs"
proof (cases x)
  case (JStr t)
  with assms(2) have "Some t \<notin> set (map discriminant (variants Webhook_event))"
    and "Some t \<notin> set (map discriminant (variants Webhook_flat))"
    unfolding Webhook_event_discriminants Webhook_flat_discriminants by auto
  then have "find (\<lambda>s. discriminant s = Some t) (variants Webhook_event) = None"
    and "find (\<lambda>s. discriminant s = Some t) (variants Webhook_flat) = None"
    by (auto simp: find_None_iff image_iff)
  with assms(1) JStr show ?thesis by (simp add: Narrow_def)
qed (use assms(1) in \<open>simp_all add: Narrow_def\<close>)

theorem Narrow_unknown_type_witness:
  "Narrow Webhook_event (JObj future_sample) = Inl UnknownEventType \<and>
   Narrow Webhook_flat (JObj future_sample) = Inl UnknownEventType \<and>
   UnknownEventType \<noteq> MalformedShape []"
  using Narrow_unknown_type [of future_sample "JStr ''SOME_FUTURE_TYPE''" "[]"]
  by (simp add: future_sample_def)

lemma example_renewal_violations:
  "violations WebhookRenewal example_renewal =
     [''entitlement_id'', ''presented_offering_id'', ''renewal_number'', ''metadata'']"
  by (simp add: violations_def WebhookRenewal_def WebhookBase_def extends_def
      example_renewal_def helper_defs)

lemma find_renewal:
  "find (\<lambda>s. discriminant s = Some ''RENEWAL'') (variants Webhook_event) =
     Some (TObject WebhookRenewal)"
  by (simp add: Webhook_event_def discriminant_nested)

text \<open>
  C9, as stated, fails: the example object of the specification leaves out the keys
  \<open>entitlement_id\<close>, \<open>presented_offering_id\<close>, \<open>renewal_number\<close> and \<open>metadata\<close>,
  which the base interface declares as required (their types admit null, the keys are
  not optional).  The object does not conform to the renewal interface, and narrowing
  reports these four keys.
\<close>

theorem example_renewal_lacks_required_keys:
  "\<not> conforms (TObject WebhookRenewal) (JObj example_renewal) \<and>
   violations WebhookRenewal example_renewal =
     [''entitlement_id'', ''presented_offering_id'', ''renewal_number'', ''metadata''] \<and>
   Narrow Webhook_event (JObj example_renewal) =
     Inl (MalformedShape
       [''entitlement_id'', ''presented_offering_id'', ''renewal_number'', ''metadata''])"
proof -
  have a: "\<not> conforms (TObject WebhookRenewal) (JObj example_renewal)"
    by (simp add: WebhookRenewal_def WebhookBase_def extends_def example_renewal_def
        helper_defs)
  have t: "map_of example_renewal ''type'' = Some (JStr ''RENEWAL'')"
    by (simp add: example_renewal_def)
  have c: "Narrow Webhook_event (JObj example_renewal) =
     Inl (MalformedShape
       [''entitlement_id'', ''presented_offering_id'', ''renewal_number'', ''metadata''])"
    by (simp add: Narrow_def t find_renewal example_renewal_violations)
  from a example_renewal_violations c show ?thesis by (simp only: simp_thms)
qed

text \<open>
  C9 (amended): once the four keys are present with the value null, the example object
  conforms to the renewal interface of the first file; narrowing succeeds and returns
  the object as a \<open>RENEWAL\<close>, in which \<open>is_trial_conversion\<close> is true and every
  property of the envelope is present with a conforming value.
\<close>

theorem example_renewal_completed_narrows:
  "conforms (TObject WebhookRenewal) (JObj (example_renewal @ absent_keys_as_null)) \<and>
   Narrow Webhook_event (JObj (example_renewal @ absent_keys_as_null)) =
     Inr (''RENEWAL'', example_renewal @ absent_keys_as_null) \<and>
   map_of (example_renewal @ absent_keys_as_null) ''is_trial_conversion'' = Some (JBool True) \<and>
   violations WebhookBase (example_renewal @ absent_keys_as_null) = []"
proof -
  have t: "map_of (example_renewal @ absent_keys_as_null) ''type'' = Some (JStr ''RENEWAL'')"
    by (simp add: example_renewal_def)
  have v: "violations WebhookRenewal (example_renewal @ absent_keys_as_null) = []"
    by (simp add: violations_def WebhookRenewal_def WebhookBase_def extends_def
        example_renewal_def absent_keys_as_null_def helper_defs)
  have n: "Narrow Webhook_event (JObj (example_renewal @ absent_keys_as_null)) =
     Inr (''RENEWAL'', example_renewal @ absent_keys_as_null)"
    by (simp add: Narrow_def t find_renewal v del: map_of_append)
  have i: "map_of (example_renewal @ absent_keys_as_null) ''is_trial_conversion'' =
      Some (JBool True)"
    by (simp add: example_renewal_def)
  have b: "violations WebhookBase (example_renewal @ absent_keys_as_null) = []"
    by (simp add: violations_def WebhookBase_def example_renewal_def absent_keys_as_null_def
        helper_defs)
  from example_completed_conforms n i b show ?thesis by (simp only: simp_thms)
qed

end
